theory Spec2Isabelle
  imports Main
begin

section \<open>JavaScript values that reach the publish pipeline\<close>

text \<open>
  Embedding of \<^verbatim>\<open>src/publish.ts\<close>. Strings are byte strings. A field that the
  TypeScript interfaces type as \<^verbatim>\<open>string\<close> but that the code itself can fill with
  \<^verbatim>\<open>undefined\<close> (destructuring a short array) or \<^verbatim>\<open>null\<close>
  (the result of \<^verbatim>\<open>semver.inc\<close>) is a \<open>jsval\<close>.
\<close>

datatype jsval = JUndefined | JNull | JStr string

text \<open>What a template literal \<^verbatim>\<open>`${v}`\<close> prints.\<close>

fun to_string :: "jsval \<Rightarrow> string" where
  "to_string JUndefined = ''undefined''"
| "to_string JNull = ''null''"
| "to_string (JStr s) = s"

text \<open>
  Options are optional strings; \<^verbatim>\<open>if (options.x)\<close> is a truthiness test, which an
  absent field and the empty string both fail.
\<close>

fun truthy :: "string option \<Rightarrow> bool" where
  "truthy None = False"
| "truthy (Some s) = (s \<noteq> [])"

text \<open>
  A promise is rejected either with a string (\<^verbatim>\<open>Promise.reject('...')\<close>) or with an
  error object, of which the code reads \<^verbatim>\<open>statusCode\<close> and \<^verbatim>\<open>message\<close>.
\<close>

record jserror =
  statusCode :: "int option"
  message :: "string option"

datatype rejection = RStr string | RErr jserror

definition new_Error :: "string \<Rightarrow> rejection" where
  "new_Error msg = RErr \<lparr>statusCode = None, message = Some msg\<rparr>"

fun status_of :: "rejection \<Rightarrow> int option" where
  "status_of (RStr s) = None"
| "status_of (RErr e) = statusCode e"

subsection \<open>The two regular-expression flavours of the file\<close>

text \<open>
  The flag \<^verbatim>\<open>i\<close> without \<^verbatim>\<open>u\<close> folds only the ASCII letters onto each other
  when the pattern is ASCII.
\<close>

definition ascii_lower :: "char \<Rightarrow> char" where
  "ascii_lower c =
     (case map_of (zip ''ABCDEFGHIJKLMNOPQRSTUVWXYZ'' ''abcdefghijklmnopqrstuvwxyz'') c of
        None \<Rightarrow> c
      | Some l \<Rightarrow> l)"

text \<open>\<^verbatim>\<open>/^lit$/i.test(s)\<close> for a lower-case literal \<open>lit\<close> without metacharacters.\<close>

definition matches_ci :: "string \<Rightarrow> string \<Rightarrow> bool" where
  "matches_ci lit s = (map ascii_lower s = lit)"

text \<open>\<^verbatim>\<open>/lit/.test(s)\<close>: the literal occurs somewhere in \<open>s\<close>.\<close>

fun starts_with :: "string \<Rightarrow> string \<Rightarrow> bool" where
  "starts_with [] s = True"
| "starts_with (p # ps) [] = False"
| "starts_with (p # ps) (c # cs) = (p = c \<and> starts_with ps cs)"

fun contains :: "string \<Rightarrow> string \<Rightarrow> bool" where
  "contains p [] = (p = [])"
| "contains p (c # cs) = (starts_with p (c # cs) \<or> contains p cs)"

text \<open>\<^verbatim>\<open>s.split(sep)\<close> for a one-character separator: never the empty array.\<close>

fun split_sep :: "char \<Rightarrow> string \<Rightarrow> string list" where
  "split_sep sep [] = [[]]"
| "split_sep sep (c # cs) =
     (if c = sep then [] # split_sep sep cs
      else (case split_sep sep cs of
              [] \<Rightarrow> [[c]]
            | w # ws \<Rightarrow> (c # w) # ws))"

text \<open>\<^verbatim>\<open>const [a, b] = xs\<close>: a missing position is \<^verbatim>\<open>undefined\<close>.\<close>

fun destructure2 :: "string list \<Rightarrow> jsval \<times> jsval" where
  "destructure2 [] = (JUndefined, JUndefined)"
| "destructure2 [a] = (JStr a, JUndefined)"
| "destructure2 (a # b # rest) = (JStr a, JStr b)"

section \<open>Data model\<close>

text \<open>
  \<^verbatim>\<open>Manifest\<close> (only the fields \<^verbatim>\<open>publish.ts\<close> reads). \<open>version\<close> is a
  \<open>jsval\<close> because \<^verbatim>\<open>versionBump\<close> stores the result of \<^verbatim>\<open>semver.inc\<close>
  in it, which may be \<^verbatim>\<open>null\<close>.
\<close>

record manifest =
  publisher :: string
  name :: string
  version :: jsval
  enableProposedApi :: "bool option"

text \<open>
  \<^verbatim>\<open>IPublishOptions\<close> and \<^verbatim>\<open>IUnpublishOptions\<close>; the fields carry the prefix
  \<open>opt_\<close> to keep them apart from the manifest's fields and from local names.
\<close>

record IPublishOptions =
  opt_packagePath :: "string option"
  opt_version :: "string option"
  opt_cwd :: "string option"
  opt_pat :: "string option"
  opt_baseContentUrl :: "string option"
  opt_baseImagesUrl :: "string option"

record IUnpublishOptions = IPublishOptions +
  opt_id :: "string option"

text \<open>The argument object of \<^verbatim>\<open>pack\<close>.\<close>

record pack_options =
  pk_packagePath :: string
  pk_cwd :: "string option"
  pk_baseContentUrl :: "string option"
  pk_baseImagesUrl :: "string option"

text \<open>\<^verbatim>\<open>PublishedExtension\<close>: the registry's answer, with its version records.\<close>

record ExtensionVersion =
  v_version :: string

record PublishedExtension =
  versions :: "ExtensionVersion list"

section \<open>The archive as a source of events\<close>

text \<open>
  \<^verbatim>\<open>yauzl\<close> and the entry's read stream call the handlers that
  \<^verbatim>\<open>readManifestFromPackage\<close> registers. An entry is identified by a number;
  \<open>EvOpenStream i None\<close> is the callback of \<^verbatim>\<open>openReadStream\<close> for entry \<open>i\<close>
  with a stream, \<open>EvOpenStream i (Some err)\<close> the same callback with an error.
\<close>

datatype zip_event =
    EvEntry nat string
  | EvEnd
  | EvOpenStream nat "rejection option"
  | EvData nat string
  | EvStreamError nat rejection
  | EvStreamEnd nat

section \<open>External calls and their answers\<close>

text \<open>Every call that leaves \<^verbatim>\<open>publish.ts\<close>, in the order it is issued.\<close>

datatype call =
    ZipOpen string
  | OpenReadStream nat
  | ReadManifest "string option" "bool option"
  | WriteManifest string manifest
  | TmpName
  | Pack pack_options
  | GetPublisher jsval
  | GetGalleryAPI string
  | CreateReadStream string
  | ConsoleLog string
  | GetExtension string string
  | UpdateExtension string string string
  | CreateExtension string
  | Prompt string
  | DeleteExtension jsval jsval

text \<open>
  What the collaborators answer. They are imported by \<^verbatim>\<open>publish.ts\<close>
  (\<^verbatim>\<open>./package\<close>, \<^verbatim>\<open>./store\<close>, \<^verbatim>\<open>./util\<close>, \<^verbatim>\<open>tmp\<close>, \<^verbatim>\<open>yauzl\<close>,
  \<^verbatim>\<open>semver\<close>, the gallery client) and are parameters of the model.
  \<^item> \<open>getPublisher\<close> answers the \<^verbatim>\<open>pat\<close> of the publisher record;
  \<^item> the gallery functions take the token the client was built from first;
  \<^item> \<open>zip_open\<close> answers the error of \<^verbatim>\<open>yauzl.open\<close> or the events the opened
    archive and its streams deliver, in the order they arrive;
  \<^item> \<open>parse_json\<close> is \<^verbatim>\<open>JSON.parse(Buffer.concat(buffers).toString('utf8'))\<close> on
    the concatenated bytes, \<open>Inl\<close> what it throws;
  \<^item> \<open>semver_valid\<close> is \<^verbatim>\<open>semver.valid\<close> (\<open>None\<close> for \<^verbatim>\<open>null\<close>) and
    \<open>semver_inc\<close> is \<^verbatim>\<open>semver.inc\<close>, which answers the incremented version or
    \<^verbatim>\<open>null\<close> when its first argument is not a version it accepts.
\<close>

record env =
  process_cwd :: string
  readManifest :: "string option \<Rightarrow> bool option \<Rightarrow> rejection + manifest"
  writeManifest :: "string \<Rightarrow> manifest \<Rightarrow> rejection + unit"
  tmpName :: "rejection + string"
  pack :: "pack_options \<Rightarrow> rejection + manifest \<times> string"
  getPublisher :: "jsval \<Rightarrow> rejection + string"
  read :: "string \<Rightarrow> rejection + string"
  zip_open :: "string \<Rightarrow> rejection + zip_event list"
  parse_json :: "string \<Rightarrow> rejection + manifest"
  semver_valid :: "string \<Rightarrow> string option"
  semver_inc :: "jsval \<Rightarrow> string \<Rightarrow> jsval"
  getExtension :: "string \<Rightarrow> string \<Rightarrow> string \<Rightarrow> rejection + PublishedExtension option"
  updateExtension :: "string \<Rightarrow> string \<Rightarrow> string \<Rightarrow> string \<Rightarrow> rejection + unit"
  createExtension :: "string \<Rightarrow> string \<Rightarrow> rejection + unit"
  deleteExtension :: "string \<Rightarrow> jsval \<Rightarrow> jsval \<Rightarrow> rejection + unit"

section \<open>Promises\<close>

text \<open>
  A promise that settles is the list of calls issued until then and the value or the
  rejection. \<open>andThen\<close> is \<^verbatim>\<open>.then(f)\<close>, \<open>orElse\<close> is \<^verbatim>\<open>.catch(h)\<close>.
\<close>

type_synonym 'a promise = "call list \<times> (rejection + 'a)"

definition andThen :: "'a promise \<Rightarrow> ('a \<Rightarrow> 'b promise) \<Rightarrow> 'b promise" where
  "andThen p f =
     (case p of
        (t, Inl err) \<Rightarrow> (t, Inl err)
      | (t, Inr x) \<Rightarrow> (case f x of (t', r) \<Rightarrow> (t @ t', r)))"

definition orElse :: "'a promise \<Rightarrow> (rejection \<Rightarrow> rejection + 'a) \<Rightarrow> 'a promise" where
  "orElse p h =
     (case p of
        (t, Inl err) \<Rightarrow> (t, h err)
      | (t, Inr x) \<Rightarrow> (t, Inr x))"

section \<open>readManifestFromPackage\<close>

text \<open>
  The state the handlers of \<^verbatim>\<open>readManifestFromPackage\<close> share: the promise (settled
  at most once, by \<^verbatim>\<open>c\<close> or \<^verbatim>\<open>e\<close>), whether \<^verbatim>\<open>onEnd\<close> still listens to
  \<^verbatim>\<open>'end'\<close>, the entries \<^verbatim>\<open>openReadStream\<close> was called for, and for every opened
  stream its \<^verbatim>\<open>buffers\<close> and its two \<^verbatim>\<open>once\<close> listeners.
\<close>

record stream_state =
  buffers :: "string list"
  on_error :: bool
  on_end :: bool

record rm_state =
  settled :: "(rejection + manifest) option"
  onEnd :: bool
  opened :: "nat list"
  streams :: "nat \<Rightarrow> stream_state option"

definition rm_init :: rm_state where
  "rm_init = \<lparr>settled = None, onEnd = True, opened = [], streams = (\<lambda>i. None)\<rparr>"

text \<open>Calling \<^verbatim>\<open>c\<close> or \<^verbatim>\<open>e\<close> of an already settled promise has no effect.\<close>

definition settle :: "rejection + manifest \<Rightarrow> rm_state \<Rightarrow> rm_state" where
  "settle r s = (if settled s = None then s\<lparr>settled := Some r\<rparr> else s)"

definition is_manifest_entry :: "string \<Rightarrow> bool" where
  "is_manifest_entry fileName = matches_ci ''extension/package.json'' fileName"

text \<open>
  One event, handled. A callback or listener that was never registered (or, being a
  \<^verbatim>\<open>once\<close> listener, has fired) does nothing.
\<close>

fun zip_step :: "(string \<Rightarrow> rejection + manifest) \<Rightarrow> rm_state \<Rightarrow> zip_event \<Rightarrow> rm_state" where
  "zip_step parse s (EvEntry i fileName) =
     (if \<not> is_manifest_entry fileName then s
      else s\<lparr>onEnd := False, opened := opened s @ [i]\<rparr>)"
| "zip_step parse s EvEnd =
     (if onEnd s then settle (Inl (new_Error ''Manifest not found'')) (s\<lparr>onEnd := False\<rparr>)
      else s)"
| "zip_step parse s (EvOpenStream i res) =
     (if i \<notin> set (opened s) then s
      else (case res of
              Some err \<Rightarrow> settle (Inl err) s
            | None \<Rightarrow>
                s\<lparr>streams := (streams s)
                     (i \<mapsto> \<lparr>buffers = [], on_error = True, on_end = True\<rparr>)\<rparr>))"
| "zip_step parse s (EvData i buffer) =
     (case streams s i of
        None \<Rightarrow> s
      | Some st \<Rightarrow> s\<lparr>streams := (streams s)(i \<mapsto> st\<lparr>buffers := buffers st @ [buffer]\<rparr>)\<rparr>)"
| "zip_step parse s (EvStreamError i err) =
     (case streams s i of
        None \<Rightarrow> s
      | Some st \<Rightarrow>
          if on_error st
          then settle (Inl err) (s\<lparr>streams := (streams s)(i \<mapsto> st\<lparr>on_error := False\<rparr>)\<rparr>)
          else s)"
| "zip_step parse s (EvStreamEnd i) =
     (case streams s i of
        None \<Rightarrow> s
      | Some st \<Rightarrow>
          if on_end st
          then settle (parse (concat (buffers st)))
                 (s\<lparr>streams := (streams s)(i \<mapsto> st\<lparr>on_end := False\<rparr>)\<rparr>)
          else s)"

fun zip_run :: "(string \<Rightarrow> rejection + manifest) \<Rightarrow> rm_state \<Rightarrow> zip_event list \<Rightarrow> rm_state" where
  "zip_run parse s [] = s"
| "zip_run parse s (ev # evs) = zip_run parse (zip_step parse s ev) evs"

text \<open>
  The promise \<^verbatim>\<open>readManifestFromPackage\<close> returns: \<open>None\<close> when no handler ever
  settles it.
\<close>

definition readManifestFromPackage ::
  "env \<Rightarrow> string \<Rightarrow> call list \<times> (rejection + manifest) option" where
  "readManifestFromPackage e packagePath =
     (case zip_open e packagePath of
        Inl err \<Rightarrow> ([ZipOpen packagePath], Some (Inl err))
      | Inr evs \<Rightarrow>
          (let s = zip_run (parse_json e) rm_init evs
           in (ZipOpen packagePath # map OpenReadStream (opened s), settled s)))"

subsection \<open>What a well-formed archive delivers\<close>

text \<open>
  \<^verbatim>\<open>yauzl\<close> emits one \<^verbatim>\<open>'entry'\<close> per entry of the central directory, in
  archive order, and then \<^verbatim>\<open>'end'\<close>. A read stream that opens and does not fail
  delivers its callback, its chunks in order and then its \<^verbatim>\<open>'end'\<close>; these arrive
  interleaved in any way with the rest of the enumeration.
\<close>

definition entry_events :: "(nat \<times> string) list \<Rightarrow> zip_event list" where
  "entry_events entries = map (\<lambda>x. EvEntry (fst x) (snd x)) entries"

definition stream_events :: "nat \<Rightarrow> string list \<Rightarrow> zip_event list" where
  "stream_events i chunks = EvOpenStream i None # map (EvData i) chunks @ [EvStreamEnd i]"

text \<open>An event of the enumeration that is not the arrival of a manifest entry.\<close>

fun is_skipped :: "zip_event \<Rightarrow> bool" where
  "is_skipped (EvEntry i fileName) = (\<not> is_manifest_entry fileName)"
| "is_skipped EvEnd = True"
| "is_skipped ev = False"

section \<open>The publish transaction\<close>

text \<open>The last \<^verbatim>\<open>.catch\<close> of \<^verbatim>\<open>_publish\<close>.\<close>

definition message_or_empty :: "rejection \<Rightarrow> string" where
  "message_or_empty err =
     (case err of
        RStr s \<Rightarrow> []
      | RErr x \<Rightarrow> (case message x of None \<Rightarrow> [] | Some m \<Rightarrow> m))"

definition pat_hint :: string where
  "pat_hint = [CHR 0x0A, CHR 0x0A]
     @ ''You're likely using an expired Personal Access Token, please get a new PAT.''
     @ [CHR 0x0A] @ ''More info: https://aka.ms/vscodepat''"

definition expired_pat_catch :: "rejection \<Rightarrow> rejection" where
  "expired_pat_catch err =
     (if contains ''Invalid Resource'' (message_or_empty err)
      then (case err of
              RStr s \<Rightarrow> RStr s
            | RErr x \<Rightarrow> RErr (x\<lparr>message := Some (message_or_empty err @ pat_hint)\<rparr>))
      else err)"

definition fullName_of :: "manifest \<Rightarrow> string" where
  "fullName_of m = publisher m @ ''.'' @ name m @ ''@'' @ to_string (version m)"

text \<open>\<^verbatim>\<open>extension && extension.versions.some(v => v.version === manifest.version)\<close>\<close>

definition version_collision :: "PublishedExtension option \<Rightarrow> manifest \<Rightarrow> bool" where
  "version_collision extension m =
     (case extension of
        None \<Rightarrow> False
      | Some ext \<Rightarrow> list_ex (\<lambda>v. JStr (v_version v) = version m) (versions ext))"

text \<open>\<^verbatim>\<open>_publish\<close>\<close>

definition publish_priv :: "env \<Rightarrow> string \<Rightarrow> string \<Rightarrow> manifest \<Rightarrow> unit promise" where
  "publish_priv e packagePath pat m =
     (let fullName = fullName_of m in
      orElse
        (andThen
           (orElse
              ([GetGalleryAPI pat, CreateReadStream packagePath,
                ConsoleLog (''Publishing '' @ fullName @ ''...''),
                GetExtension (publisher m) (name m)],
               getExtension e pat (publisher m) (name m))
              (\<lambda>err. if status_of err = Some 404 then Inr None else Inl err))
           (\<lambda>extension.
              if version_collision extension m
              then ([], Inl (RStr (fullName @ '' already exists. Version number cannot be the same.'')))
              else andThen
                     (orElse
                        (case extension of
                           Some ext \<Rightarrow>
                             ([UpdateExtension packagePath (publisher m) (name m)],
                              updateExtension e pat packagePath (publisher m) (name m))
                         | None \<Rightarrow>
                             ([CreateExtension packagePath], createExtension e pat packagePath))
                        (\<lambda>err. Inl (if status_of err = Some 409
                                     then RStr (fullName @ '' already exists.'') else err)))
                     (\<lambda>u. ([ConsoleLog (''Successfully published '' @ fullName @ ''!'')], Inr ()))))
        (\<lambda>err. Inl (expired_pat_catch err)))"

section \<open>versionBump and publish\<close>

text \<open>
  \<^verbatim>\<open>versionBump(cwd = process.cwd(), version)\<close>: the default replaces an
  \<^verbatim>\<open>undefined\<close> first argument.
\<close>

definition versionBump :: "env \<Rightarrow> string option \<Rightarrow> string option \<Rightarrow> unit promise" where
  "versionBump e cwd_arg version_arg =
     (let cwd = (case cwd_arg of None \<Rightarrow> process_cwd e | Some d \<Rightarrow> d) in
      case version_arg of
        None \<Rightarrow> ([], Inr ())
      | Some version' \<Rightarrow>
          if version' = [] then ([], Inr ())
          else
            andThen
              (andThen
                 ([ReadManifest (Some cwd) (Some False)], readManifest e (Some cwd) (Some False))
                 (\<lambda>m.
                    if version' = ''major'' \<or> version' = ''minor'' \<or> version' = ''patch''
                    then ([], Inr (m, semver_inc e (version m) version'))
                    else (case semver_valid e version' of
                            None \<Rightarrow> ([], Inl (RStr (''Invalid version '' @ version')))
                          | Some updatedVersion \<Rightarrow>
                              if updatedVersion = []
                              then ([], Inl (RStr (''Invalid version '' @ version')))
                              else ([], Inr (m, JStr updatedVersion)))))
              (\<lambda>(m, v).
                 if v \<noteq> version m
                 then ([WriteManifest cwd (m\<lparr>version := v\<rparr>)],
                       writeManifest e cwd (m\<lparr>version := v\<rparr>))
                 else ([], Inr ())))"

text \<open>A promise that may stay pending, followed by \<^verbatim>\<open>.then(f)\<close>.\<close>

definition thenPending ::
  "call list \<times> (rejection + 'a) option \<Rightarrow> ('a \<Rightarrow> 'b promise)
     \<Rightarrow> call list \<times> (rejection + 'b) option" where
  "thenPending p f =
     (case p of
        (t, None) \<Rightarrow> (t, None)
      | (t, Some (Inl err)) \<Rightarrow> (t, Some (Inl err))
      | (t, Some (Inr x)) \<Rightarrow> (case f x of (t', r) \<Rightarrow> (t @ t', Some r)))"

definition pending :: "'a promise \<Rightarrow> call list \<times> (rejection + 'a) option" where
  "pending p = (case p of (t, r) \<Rightarrow> (t, Some r))"

definition proposed_api_error :: rejection where
  "proposed_api_error = new_Error
     ''Extensions using proposed API (enableProposedApi: true) can't be published to the Marketplace''"

text \<open>The handler of \<^verbatim>\<open>promise.then\<close> in \<^verbatim>\<open>publish\<close> (lines 145 to 155).\<close>

definition publish_resolved :: "env \<Rightarrow> IPublishOptions \<Rightarrow> manifest \<times> string \<Rightarrow> unit promise" where
  "publish_resolved e options res =
     (case res of (m, packagePath) \<Rightarrow>
        if enableProposedApi m = Some True
        then ([], Inl proposed_api_error)
        else andThen
               (case opt_pat options of
                  None \<Rightarrow> ([GetPublisher (JStr (publisher m))], getPublisher e (JStr (publisher m)))
                | Some p \<Rightarrow>
                    if p = []
                    then ([GetPublisher (JStr (publisher m))], getPublisher e (JStr (publisher m)))
                    else ([], Inr p))
               (\<lambda>pat. publish_priv e packagePath pat m))"

text \<open>The \<^verbatim>\<open>else\<close> branch of \<^verbatim>\<open>publish\<close>: bump, temporary name, packager.\<close>

definition publish_build :: "env \<Rightarrow> IPublishOptions \<Rightarrow> (manifest \<times> string) promise" where
  "publish_build e options =
     andThen
       (andThen
          (versionBump e (opt_cwd options) (opt_version options))
          (\<lambda>u. ([TmpName], tmpName e)))
       (\<lambda>packagePath.
          (let po = \<lparr>pk_packagePath = packagePath, pk_cwd = opt_cwd options,
                     pk_baseContentUrl = opt_baseContentUrl options,
                     pk_baseImagesUrl = opt_baseImagesUrl options\<rparr>
           in ([Pack po], pack e po)))"

definition publish :: "env \<Rightarrow> IPublishOptions \<Rightarrow> call list \<times> (rejection + unit) option" where
  "publish e options =
     (let build = thenPending (pending (publish_build e options)) (publish_resolved e options) in
      case opt_packagePath options of
        None \<Rightarrow> build
      | Some p \<Rightarrow>
          if p = [] then build
          else if truthy (opt_version options)
          then ([], Some (Inl (RStr ''Not supported: packagePath and version.'')))
          else thenPending
                 (thenPending (readManifestFromPackage e p) (\<lambda>m. ([], Inr (m, p))))
                 (publish_resolved e options))"

section \<open>unpublish\<close>

text \<open>Lines 184 to 189: the identity pair, from \<^verbatim>\<open>options.id\<close> or from the manifest.\<close>

definition manifest_identity :: "env \<Rightarrow> IUnpublishOptions \<Rightarrow> (jsval \<times> jsval) promise" where
  "manifest_identity e options =
     andThen ([ReadManifest (opt_cwd options) None], readManifest e (opt_cwd options) None)
       (\<lambda>m. ([], Inr (JStr (publisher m), JStr (name m))))"

definition resolve_identity :: "env \<Rightarrow> IUnpublishOptions \<Rightarrow> (jsval \<times> jsval) promise" where
  "resolve_identity e options =
     (case opt_id options of
        None \<Rightarrow> manifest_identity e options
      | Some i \<Rightarrow>
          if i = [] then manifest_identity e options
          else ([], Inr (destructure2 (split_sep CHR ''.'' i))))"

text \<open>
  The constant \<^verbatim>\<open>pat\<close> of \<^verbatim>\<open>unpublish\<close>: the given token, or the
  promise of \<^verbatim>\<open>getPublisher(publisher).then(p => p.pat)\<close>.
\<close>

definition unpublish_pat :: "env \<Rightarrow> IUnpublishOptions \<Rightarrow> jsval \<Rightarrow> string promise" where
  "unpublish_pat e options publisher' =
     (case opt_pat options of
        None \<Rightarrow> ([GetPublisher publisher'], getPublisher e publisher')
      | Some p \<Rightarrow>
          if p = [] then ([GetPublisher publisher'], getPublisher e publisher')
          else ([], Inr p))"

definition delete_question :: "string \<Rightarrow> string" where
  "delete_question fullName =
     ''This will FOREVER delete '' @ [CHR 0x27] @ fullName @ [CHR 0x27]
       @ ''! Are you sure? [y/N] ''"

text \<open>
  The handler of \<^verbatim>\<open>promise.then\<close> in \<^verbatim>\<open>unpublish\<close>. \<^verbatim>\<open>pat\<close> is built,
  and with it \<^verbatim>\<open>getPublisher\<close> called, before \<^verbatim>\<open>read\<close> is; its outcome is
  consumed later, by \<^verbatim>\<open>.then(() => pat)\<close>.
\<close>

definition unpublish_resolved :: "env \<Rightarrow> IUnpublishOptions \<Rightarrow> jsval \<times> jsval \<Rightarrow> unit promise" where
  "unpublish_resolved e options ident =
     (case ident of (publisher', name') \<Rightarrow>
        (let fullName = to_string publisher' @ ''.'' @ to_string name';
             pat = unpublish_pat e options publisher'
         in andThen (fst pat, Inr ())
              (\<lambda>u. andThen
                 (andThen
                    (andThen
                       (andThen
                          ([Prompt (delete_question fullName)], read e (delete_question fullName))
                          (\<lambda>answer. if matches_ci ''y'' answer then ([], Inr ())
                                     else ([], Inl (RStr ''Aborted''))))
                       (\<lambda>u. ([], snd pat)))
                    (\<lambda>p. ([GetGalleryAPI p, DeleteExtension publisher' name'],
                          deleteExtension e p publisher' name')))
                 (\<lambda>u. ([ConsoleLog (''Successfully deleted '' @ fullName @ ''!'')], Inr ())))))"

definition unpublish :: "env \<Rightarrow> IUnpublishOptions \<Rightarrow> unit promise" where
  "unpublish e options = andThen (resolve_identity e options) (unpublish_resolved e options)"

section \<open>Observations on the list of calls\<close>

text \<open>The calls that reach the registry over the network.\<close>

fun is_transfer :: "call \<Rightarrow> bool" where
  "is_transfer (UpdateExtension p a b) = True"
| "is_transfer (CreateExtension p) = True"
| "is_transfer c = False"

fun is_delete :: "call \<Rightarrow> bool" where
  "is_delete (DeleteExtension a b) = True"
| "is_delete c = False"

fun is_network :: "call \<Rightarrow> bool" where
  "is_network (GetExtension a b) = True"
| "is_network (UpdateExtension p a b) = True"
| "is_network (CreateExtension p) = True"
| "is_network (DeleteExtension a b) = True"
| "is_network c = False"

text \<open>
  The split the specification describes for a combined identifier: the part before the
  first \<open>.\<close> and the entire remainder after it.
\<close>

definition split_on_first :: "string \<Rightarrow> string \<times> string" where
  "split_on_first s =
     (takeWhile (\<lambda>c. c \<noteq> CHR ''.'') s, tl (dropWhile (\<lambda>c. c \<noteq> CHR ''.'') s))"

section \<open>A concrete environment\<close>

definition demo_manifest :: manifest where
  "demo_manifest =
     \<lparr>publisher = ''acme'', name = ''tool'', version = JStr ''1.0.0'', enableProposedApi = None\<rparr>"

definition demo_extension :: PublishedExtension where
  "demo_extension = \<lparr>versions = [\<lparr>v_version = ''0.9.0''\<rparr>, \<lparr>v_version = ''1.0.0''\<rparr>]\<rparr>"

definition demo_env :: env where
  "demo_env =
     \<lparr>process_cwd = ''/work'',
      readManifest = (\<lambda>d nls. Inr demo_manifest),
      writeManifest = (\<lambda>d m. Inr ()),
      tmpName = Inr ''/tmp/a.vsix'',
      pack = (\<lambda>po. Inr (demo_manifest, pk_packagePath po)),
      getPublisher = (\<lambda>p. Inr ''token''),
      read = (\<lambda>q. Inr ''y''),
      zip_open = (\<lambda>p. Inr [EvEnd]),
      parse_json = (\<lambda>bytes. if bytes = ''{}'' then Inr demo_manifest
                             else Inl (new_Error ''Unexpected token'')),
      semver_valid = (\<lambda>s. if s = ''1.0.0'' then Some s else None),
      semver_inc = (\<lambda>v release. if v \<noteq> JStr ''1.0.0'' then JNull
                                else if release = ''major'' then JStr ''2.0.0''
                                else if release = ''minor'' then JStr ''1.1.0''
                                else if release = ''patch'' then JStr ''1.0.1''
                                else JNull),
      getExtension = (\<lambda>pat p n. Inr (Some demo_extension)),
      updateExtension = (\<lambda>pat path p n. Inr ()),
      createExtension = (\<lambda>pat path. Inr ()),
      deleteExtension = (\<lambda>pat p n. Inr ())\<rparr>"

text \<open>The same environment with another answer to the prompt, and with an empty store.\<close>

definition env_answering :: "string \<Rightarrow> env" where
  "env_answering a = demo_env\<lparr>read := (\<lambda>q. Inr a)\<rparr>"

definition env_unknown_publisher :: env where
  "env_unknown_publisher = demo_env\<lparr>getPublisher := (\<lambda>p. Inl (RStr ''Unknown publisher''))\<rparr>"

text \<open>
  Archives: one without a manifest entry; one with a single manifest entry between two
  other entries, its stream interleaved with the rest of the enumeration; and one with two
  entries that both match, in two orders of arrival of their streams' events.
\<close>

definition env_archive :: "zip_event list \<Rightarrow> env" where
  "env_archive events = demo_env\<lparr>zip_open := (\<lambda>p. Inr events)\<rparr>"

definition second_manifest :: manifest where
  "second_manifest = demo_manifest\<lparr>version := JStr ''2.0.0''\<rparr>"

definition env_two_manifest_entries :: "zip_event list \<Rightarrow> env" where
  "env_two_manifest_entries events =
     demo_env\<lparr>zip_open := (\<lambda>p. Inr events),
              parse_json := (\<lambda>bytes. if bytes = ''first'' then Inr demo_manifest
                                      else if bytes = ''second'' then Inr second_manifest
                                      else Inl (new_Error ''Unexpected token''))\<rparr>"

definition two_entries_in_order :: "zip_event list" where
  "two_entries_in_order =
     [EvEntry 0 ''extension/package.json'', EvEntry 1 ''Extension/Package.json'', EvEnd,
      EvOpenStream 0 None, EvOpenStream 1 None,
      EvData 0 ''fir'', EvData 0 ''st'', EvStreamEnd 0,
      EvData 1 ''second'', EvStreamEnd 1]"

definition two_entries_second_first :: "zip_event list" where
  "two_entries_second_first =
     [EvEntry 0 ''extension/package.json'', EvEntry 1 ''Extension/Package.json'', EvEnd,
      EvOpenStream 0 None, EvOpenStream 1 None,
      EvData 0 ''fir'', EvData 1 ''second'', EvStreamEnd 1,
      EvData 0 ''st'', EvStreamEnd 0]"

definition demo_options :: IPublishOptions where
  "demo_options =
     \<lparr>opt_packagePath = None, opt_version = None, opt_cwd = None, opt_pat = None,
      opt_baseContentUrl = None, opt_baseImagesUrl = None\<rparr>"

definition demo_unpublish_options :: "string \<Rightarrow> IUnpublishOptions" where
  "demo_unpublish_options i =
     \<lparr>opt_packagePath = None, opt_version = None, opt_cwd = None, opt_pat = None,
      opt_baseContentUrl = None, opt_baseImagesUrl = None, opt_id = Some i\<rparr>"

section \<open>Auxiliary facts\<close>

lemma andThen_Inl [simp]: "andThen (t, Inl err) f = (t, Inl err)"
  by (simp add: andThen_def)

lemma andThen_Inr [simp]: "andThen (t, Inr x) f = (t @ fst (f x), snd (f x))"
  by (simp add: andThen_def split: prod.splits)

lemma orElse_Inl [simp]: "orElse (t, Inl err) h = (t, h err)"
  by (simp add: orElse_def)

lemma orElse_Inr [simp]: "orElse (t, Inr x) h = (t, Inr x)"
  by (simp add: orElse_def)

lemma split_sep_first:
  "split_sep sep s = takeWhile (\<lambda>c. c \<noteq> sep) s #
     (if sep \<in> set s then split_sep sep (tl (dropWhile (\<lambda>c. c \<noteq> sep) s)) else [])"
  by (induction s) (auto split: list.splits)

lemma ascii_lower_y: "ascii_lower c = CHR ''y'' \<longleftrightarrow> c = CHR ''y'' \<or> c = CHR ''Y''"
  by (auto simp: ascii_lower_def split: if_splits)

lemma matches_ci_y: "matches_ci ''y'' a \<longleftrightarrow> a = ''y'' \<or> a = ''Y''"
  by (cases a) (auto simp: matches_ci_def ascii_lower_y)

lemma fst_andThen:
  "fst (andThen p f) = fst p @ (case snd p of Inl err \<Rightarrow> [] | Inr x \<Rightarrow> fst (f x))"
  by (cases p) (auto simp: andThen_def split: sum.splits prod.splits)

lemma resolve_identity_calls:
  "resolve_identity e options = (t0, r) \<Longrightarrow> filter is_delete t0 = [] \<and> filter is_network t0 = []"
  by (auto simp: resolve_identity_def manifest_identity_def andThen_def
           split: option.splits if_splits sum.splits)

lemma unpublish_pat_calls:
  "fst (unpublish_pat e options p) = (if truthy (opt_pat options) then [] else [GetPublisher p])"
  by (simp add: unpublish_pat_def split: option.splits)

lemma versionBump_calls: "filter is_network (fst (versionBump e a b)) = []"
  by (auto simp: versionBump_def Let_def andThen_def split: option.splits sum.splits prod.splits)

lemma publish_build_calls: "filter is_network (fst (publish_build e options)) = []"
  using versionBump_calls [of e "opt_cwd options" "opt_version options"]
  by (auto simp: publish_build_def Let_def andThen_def split: sum.splits prod.splits)

lemma readManifestFromPackage_calls: "filter is_network (fst (readManifestFromPackage e p)) = []"
proof -
  have "filter is_network (map OpenReadStream xs) = []" for xs
    by (induction xs) simp_all
  then show ?thesis
    by (simp add: readManifestFromPackage_def Let_def split: sum.splits)
qed

lemma zip_run_append: "zip_run parse s (xs @ ys) = zip_run parse (zip_run parse s xs) ys"
  by (induction xs arbitrary: s) simp_all

lemma onEnd_settle [simp]: "onEnd (settle r s) = onEnd s"
  by (simp add: settle_def)

lemma opened_settle [simp]: "opened (settle r s) = opened s"
  by (simp add: settle_def)

lemma onEnd_step: "\<not> onEnd s \<Longrightarrow> \<not> onEnd (zip_step parse s ev)"
  by (cases ev) (auto split: option.splits)

lemma onEnd_run: "\<not> onEnd s \<Longrightarrow> \<not> onEnd (zip_run parse s evs)"
  by (induction evs arbitrary: s) (simp_all add: onEnd_step)

lemma skipped_entry_step: "ev \<in> set (entry_events entries) \<Longrightarrow>
    \<forall>x\<in>set entries. \<not> is_manifest_entry (snd x) \<Longrightarrow> zip_step parse s ev = s"
  by (auto simp: entry_events_def)

lemma skipped_entries_run:
  "\<forall>x\<in>set entries. \<not> is_manifest_entry (snd x) \<Longrightarrow>
     zip_run parse s (entry_events entries) = s"
  by (induction entries arbitrary: s) (simp_all add: entry_events_def)

lemma skipped_step: "is_skipped ev \<Longrightarrow> \<not> onEnd s \<Longrightarrow> zip_step parse s ev = s"
  by (cases ev) simp_all

lemma shuffled_enumeration_skipped:
  "zs \<in> shuffles xs ys \<Longrightarrow> \<forall>x\<in>set xs. is_skipped x \<Longrightarrow> \<not> onEnd s \<Longrightarrow>
     zip_run parse s zs = zip_run parse s ys"
proof (induction xs ys arbitrary: zs s rule: shuffles.induct)
  case (1 ys)
  then show ?case by simp
next
  case (2 xs)
  have "zip_run parse s xs = s" if "\<forall>x\<in>set xs. is_skipped x" for xs
    using that "2.prems"(3) by (induction xs) (simp_all add: skipped_step)
  with 2 show ?case by simp
next
  case (3 x xs y ys)
  from "3.prems"(1) consider
      (left) zs' where "zs = x # zs'" "zs' \<in> shuffles xs (y # ys)"
    | (right) zs' where "zs = y # zs'" "zs' \<in> shuffles (x # xs) ys"
    by auto
  then show ?case
  proof cases
    case left
    have "zip_step parse s x = s"
      using "3.prems"(2,3) by (simp add: skipped_step)
    with left "3.IH"(1) [of zs' s] "3.prems"(2,3) show ?thesis by simp
  next
    case right
    with "3.IH"(2) [of zs' "zip_step parse s y"] "3.prems"(2,3) show ?thesis
      by (simp add: onEnd_step)
  qed
qed

lemma data_run:
  "streams s i = Some st \<Longrightarrow>
     zip_run parse s (map (EvData i) cs)
       = s\<lparr>streams := (streams s)(i \<mapsto> st\<lparr>buffers := buffers st @ cs\<rparr>)\<rparr>"
proof (induction cs arbitrary: s st)
  case Nil
  then show ?case by (simp add: fun_upd_idem)
next
  case (Cons c cs)
  from Cons.prems have "streams (zip_step parse s (EvData i c)) i
      = Some (st\<lparr>buffers := buffers st @ [c]\<rparr>)" by simp
  from Cons.IH [OF this] Cons.prems show ?case by (simp add: fun_eq_iff)
qed

lemma single_stream_run:
  assumes "settled s = None" and "i \<in> set (opened s)"
  shows "settled (zip_run parse s (stream_events i chunks)) = Some (parse (concat chunks))"
    and "opened (zip_run parse s (stream_events i chunks)) = opened s"
  using assms
  by (simp_all add: stream_events_def zip_run_append data_run settle_def)

section \<open>The publish transaction: version collision\<close>

text \<open>
  C1. When the registry query answers an existing extension one of whose version records
  carries exactly the manifest's version, \<^verbatim>\<open>_publish\<close> is rejected with the string
  \<open>publisher.name@version already exists. Version number cannot be the same.\<close>; the
  calls it has issued are the client construction, the opening of the package stream, the
  log line and the query, so neither \<^verbatim>\<open>createExtension\<close> nor
  \<^verbatim>\<open>updateExtension\<close> is called.
\<close>

theorem publish_duplicate_version:
  assumes "getExtension e pat (publisher m) (name m) = Inr (Some ext)"
    and "v \<in> set (versions ext)"
    and "JStr (v_version v) = version m"
  shows "publish_priv e packagePath pat m =
           ([GetGalleryAPI pat, CreateReadStream packagePath,
             ConsoleLog (''Publishing '' @ fullName_of m @ ''...''),
             GetExtension (publisher m) (name m)],
            Inl (RStr (publisher m @ ''.'' @ name m @ ''@'' @ v_version v
                       @ '' already exists. Version number cannot be the same.'')))
         \<and> filter is_transfer (fst (publish_priv e packagePath pat m)) = []"
proof -
  have coll: "version_collision (Some ext) m"
    using assms(2,3) by (auto simp: version_collision_def list_ex_iff)
  have full: "fullName_of m = publisher m @ ''.'' @ name m @ ''@'' @ v_version v"
    using assms(3) [symmetric] by (simp add: fullName_of_def)
  have "publish_priv e packagePath pat m =
           ([GetGalleryAPI pat, CreateReadStream packagePath,
             ConsoleLog (''Publishing '' @ fullName_of m @ ''...''),
             GetExtension (publisher m) (name m)],
            Inl (expired_pat_catch (RStr (fullName_of m
                       @ '' already exists. Version number cannot be the same.''))))"
    using assms(1) coll by (simp add: publish_priv_def Let_def)
  then show ?thesis
    by (simp add: expired_pat_catch_def message_or_empty_def full)
qed

text \<open>
  C1 at the example of the specification: \<open>acme.tool@1.0.0\<close> against a registry that
  reports the versions \<open>0.9.0\<close> and \<open>1.0.0\<close>.
\<close>

theorem publish_duplicate_version_witness:
  "publish_priv demo_env ''/tmp/a.vsix'' ''token'' demo_manifest =
     ([GetGalleryAPI ''token'', CreateReadStream ''/tmp/a.vsix'',
       ConsoleLog ''Publishing acme.tool@1.0.0...'', GetExtension ''acme'' ''tool''],
      Inl (RStr ''acme.tool@1.0.0 already exists. Version number cannot be the same.''))"
  using publish_duplicate_version
          [of demo_env "''token''" demo_manifest demo_extension "\<lparr>v_version = ''1.0.0''\<rparr>"
              "''/tmp/a.vsix''"]
  by (simp add: demo_env_def demo_manifest_def demo_extension_def fullName_of_def)

section \<open>unpublish: the identity pair of a combined identifier\<close>

text \<open>
  C9, as stated, fails. The identifier \<open>acme.tool.beta\<close> contains a separator, and the
  pair \<^verbatim>\<open>unpublish\<close> resolves is \<open>acme\<close>, \<open>tool\<close>: the name is not the entire
  remainder \<open>tool.beta\<close> after the first separator.
\<close>

theorem unpublish_id_split_counterexample:
  "CHR ''.'' \<in> set ''acme.tool.beta'' \<and>
   snd (resolve_identity demo_env (demo_unpublish_options ''acme.tool.beta''))
     = Inr (JStr ''acme'', JStr ''tool'') \<and>
   snd (resolve_identity demo_env (demo_unpublish_options ''acme.tool.beta''))
     \<noteq> Inr (JStr (fst (split_on_first ''acme.tool.beta'')),
            JStr (snd (split_on_first ''acme.tool.beta'')))"
  by (simp add: resolve_identity_def demo_unpublish_options_def split_on_first_def)

text \<open>
  C9, amended. For an identifier with at least one separator, the publisher is the part
  before the first separator and the name is the part between the first separator and the
  second one; whatever follows a second separator is dropped. Only when the remainder
  after the first separator has no further separator is the name that entire remainder.
\<close>

theorem unpublish_id_first_two_segments:
  assumes "opt_id options = Some i" and "CHR ''.'' \<in> set i"
  shows "resolve_identity e options =
           ([], Inr (JStr (fst (split_on_first i)),
                     JStr (takeWhile (\<lambda>c. c \<noteq> CHR ''.'') (snd (split_on_first i)))))
         \<and> (CHR ''.'' \<notin> set (snd (split_on_first i)) \<longrightarrow>
              snd (resolve_identity e options)
                = Inr (JStr (fst (split_on_first i)), JStr (snd (split_on_first i))))"
proof -
  from assms(2) have ne: "i \<noteq> []" by auto
  let ?rest = "tl (dropWhile (\<lambda>c. c \<noteq> CHR ''.'') i)"
  have "split_sep CHR ''.'' i = takeWhile (\<lambda>c. c \<noteq> CHR ''.'') i # split_sep CHR ''.'' ?rest"
    using assms(2) by (subst split_sep_first) simp
  also have "split_sep CHR ''.'' ?rest = takeWhile (\<lambda>c. c \<noteq> CHR ''.'') ?rest #
       (if CHR ''.'' \<in> set ?rest
        then split_sep CHR ''.'' (tl (dropWhile (\<lambda>c. c \<noteq> CHR ''.'') ?rest)) else [])"
    by (rule split_sep_first)
  finally have "destructure2 (split_sep CHR ''.'' i) =
      (JStr (takeWhile (\<lambda>c. c \<noteq> CHR ''.'') i), JStr (takeWhile (\<lambda>c. c \<noteq> CHR ''.'') ?rest))"
    by (simp split: list.splits)
  then have main: "resolve_identity e options =
           ([], Inr (JStr (fst (split_on_first i)),
                     JStr (takeWhile (\<lambda>c. c \<noteq> CHR ''.'') (snd (split_on_first i)))))"
    using assms(1) ne by (simp add: resolve_identity_def split_on_first_def)
  moreover have "CHR ''.'' \<notin> set (snd (split_on_first i)) \<Longrightarrow>
     takeWhile (\<lambda>c. c \<noteq> CHR ''.'') (snd (split_on_first i)) = snd (split_on_first i)"
    by auto
  ultimately show ?thesis by simp
qed

text \<open>C9, amended, at \<open>acme.tool\<close> and at \<open>acme.tool.beta\<close>.\<close>

theorem unpublish_id_first_two_segments_witness:
  "resolve_identity demo_env (demo_unpublish_options ''acme.tool'')
     = ([], Inr (JStr ''acme'', JStr ''tool''))
   \<and> resolve_identity demo_env (demo_unpublish_options ''acme.tool.beta'')
     = ([], Inr (JStr ''acme'', JStr ''tool''))"
  using unpublish_id_first_two_segments
          [of "demo_unpublish_options ''acme.tool''" "''acme.tool''" demo_env]
        unpublish_id_first_two_segments
          [of "demo_unpublish_options ''acme.tool.beta''" "''acme.tool.beta''" demo_env]
  by (simp add: demo_unpublish_options_def split_on_first_def)

section \<open>The publish transaction: create or update\<close>

text \<open>
  C2. A query failure whose \<^verbatim>\<open>statusCode\<close> is 404 counts as "no extension": the
  only transfer call is \<^verbatim>\<open>createExtension\<close>, and if that succeeds so does
  \<^verbatim>\<open>_publish\<close>. Any other query failure is the rejection of \<^verbatim>\<open>_publish\<close>
  (passed through the final \<^verbatim>\<open>catch\<close>, which returns it unchanged unless its message
  holds \<open>Invalid Resource\<close>) and nothing is called after the query. An existing
  extension without the manifest's version leads to \<^verbatim>\<open>updateExtension\<close> as the only
  transfer call.
\<close>

theorem publish_query_outcomes:
  "(getExtension e pat (publisher m) (name m) = Inl err \<and> status_of err = Some 404 \<longrightarrow>
      filter is_transfer (fst (publish_priv e packagePath pat m)) = [CreateExtension packagePath]
      \<and> (createExtension e pat packagePath = Inr () \<longrightarrow>
           snd (publish_priv e packagePath pat m) = Inr ()))
   \<and> (getExtension e pat (publisher m) (name m) = Inl err \<and> status_of err \<noteq> Some 404 \<longrightarrow>
      publish_priv e packagePath pat m =
        ([GetGalleryAPI pat, CreateReadStream packagePath,
          ConsoleLog (''Publishing '' @ fullName_of m @ ''...''),
          GetExtension (publisher m) (name m)],
         Inl (expired_pat_catch err))
      \<and> (\<not> contains ''Invalid Resource'' (message_or_empty err) \<longrightarrow>
           snd (publish_priv e packagePath pat m) = Inl err))
   \<and> (getExtension e pat (publisher m) (name m) = Inr (Some ext)
        \<and> \<not> version_collision (Some ext) m \<longrightarrow>
      filter is_transfer (fst (publish_priv e packagePath pat m))
        = [UpdateExtension packagePath (publisher m) (name m)])"
  by (cases "createExtension e pat packagePath";
      cases "updateExtension e pat packagePath (publisher m) (name m)")
     (simp_all add: publish_priv_def Let_def version_collision_def expired_pat_catch_def)

text \<open>
  C2 on three registries: one that answers 404, one that answers 500, and one that knows
  \<open>acme.tool\<close> in the versions \<open>0.9.0\<close> and \<open>1.0.0\<close> while \<open>1.1.0\<close> is published.
\<close>

theorem publish_query_outcomes_witness:
  "filter is_transfer (fst (publish_priv
      (demo_env\<lparr>getExtension :=
         (\<lambda>pat p n. Inl (RErr \<lparr>statusCode = Some 404, message = Some ''Not Found''\<rparr>))\<rparr>)
      ''/tmp/a.vsix'' ''token'' demo_manifest)) = [CreateExtension ''/tmp/a.vsix'']
   \<and> snd (publish_priv
      (demo_env\<lparr>getExtension :=
         (\<lambda>pat p n. Inl (RErr \<lparr>statusCode = Some 404, message = Some ''Not Found''\<rparr>))\<rparr>)
      ''/tmp/a.vsix'' ''token'' demo_manifest) = Inr ()
   \<and> snd (publish_priv
      (demo_env\<lparr>getExtension :=
         (\<lambda>pat p n. Inl (RErr \<lparr>statusCode = Some 500, message = Some ''Server Error''\<rparr>))\<rparr>)
      ''/tmp/a.vsix'' ''token'' demo_manifest)
       = Inl (RErr \<lparr>statusCode = Some 500, message = Some ''Server Error''\<rparr>)
   \<and> filter is_transfer (fst (publish_priv demo_env ''/tmp/a.vsix'' ''token''
        (demo_manifest\<lparr>version := JStr ''1.1.0''\<rparr>)))
       = [UpdateExtension ''/tmp/a.vsix'' ''acme'' ''tool'']"
  using publish_query_outcomes
          [where e = "demo_env\<lparr>getExtension :=
                        (\<lambda>pat p n. Inl (RErr \<lparr>statusCode = Some 404, message = Some ''Not Found''\<rparr>))\<rparr>"
             and pat = "''token''" and m = demo_manifest and packagePath = "''/tmp/a.vsix''"
             and err = "RErr \<lparr>statusCode = Some 404, message = Some ''Not Found''\<rparr>"]
        publish_query_outcomes
          [where e = "demo_env\<lparr>getExtension :=
                        (\<lambda>pat p n. Inl (RErr \<lparr>statusCode = Some 500, message = Some ''Server Error''\<rparr>))\<rparr>"
             and pat = "''token''" and m = demo_manifest and packagePath = "''/tmp/a.vsix''"
             and err = "RErr \<lparr>statusCode = Some 500, message = Some ''Server Error''\<rparr>"]
        publish_query_outcomes
          [where e = demo_env and pat = "''token''"
             and m = "demo_manifest\<lparr>version := JStr ''1.1.0''\<rparr>"
             and packagePath = "''/tmp/a.vsix''" and ext = demo_extension]
  by (simp add: demo_env_def demo_manifest_def demo_extension_def version_collision_def
        message_or_empty_def expired_pat_catch_def)

section \<open>publish: mutually exclusive options\<close>

text \<open>
  C6. With a non-empty \<^verbatim>\<open>packagePath\<close> and a non-empty \<^verbatim>\<open>version\<close> in the
  options, \<^verbatim>\<open>publish\<close> is rejected with \<open>Not supported: packagePath and version.\<close>
  and has issued no call at all: no manifest is read or written, no archive opened,
  the packager is not run and the registry is not contacted.
\<close>

theorem publish_exclusive_options:
  assumes "truthy (opt_packagePath options)" and "truthy (opt_version options)"
  shows "publish e options = ([], Some (Inl (RStr ''Not supported: packagePath and version.'')))"
  using assms by (cases "opt_packagePath options") (simp_all add: publish_def Let_def)

text \<open>C6 for \<^verbatim>\<open>{packagePath: 'a.vsix', version: 'minor'}\<close>.\<close>

theorem publish_exclusive_options_witness:
  "publish demo_env (demo_options\<lparr>opt_packagePath := Some ''a.vsix'', opt_version := Some ''minor''\<rparr>)
     = ([], Some (Inl (RStr ''Not supported: packagePath and version.'')))"
  using publish_exclusive_options
          [of "demo_options\<lparr>opt_packagePath := Some ''a.vsix'', opt_version := Some ''minor''\<rparr>"
              demo_env]
  by (simp add: demo_options_def)

section \<open>versionBump on a manifest whose version does not parse\<close>

text \<open>
  C10. Let the working-directory manifest carry a version string that is not a valid
  semantic version, so that \<^verbatim>\<open>semver.inc\<close> answers \<^verbatim>\<open>null\<close> on it, and let the
  directive be \<open>major\<close>, \<open>minor\<close> or \<open>patch\<close>. Then \<^verbatim>\<open>versionBump\<close> reads the
  manifest and, \<^verbatim>\<open>null\<close> being different from the version string, writes it back
  with the version \<^verbatim>\<open>null\<close>; its outcome is that of \<^verbatim>\<open>writeManifest\<close>, so the
  bump raises no \<open>Invalid version\<close> rejection.
\<close>

theorem versionBump_invalid_current_version:
  assumes "d = ''major'' \<or> d = ''minor'' \<or> d = ''patch''"
    and "cwd = (case cwd_arg of None \<Rightarrow> process_cwd e | Some x \<Rightarrow> x)"
    and "readManifest e (Some cwd) (Some False) = Inr m"
    and "version m = JStr s"
    and "semver_inc e (JStr s) d = JNull"
  shows "versionBump e cwd_arg (Some d) =
           ([ReadManifest (Some cwd) (Some False), WriteManifest cwd (m\<lparr>version := JNull\<rparr>)],
            writeManifest e cwd (m\<lparr>version := JNull\<rparr>))"
proof -
  from assms(1) have "d \<noteq> []" by auto
  moreover have "semver_inc e (version m) d = JNull"
    using assms(4,5) by simp
  ultimately show ?thesis
    using assms(1,2,3,4) by (auto simp: versionBump_def Let_def)
qed

text \<open>C10 for a manifest with the version \<open>one\<close> and the directive \<open>minor\<close>.\<close>

theorem versionBump_invalid_current_version_witness:
  "versionBump
     (demo_env\<lparr>readManifest := (\<lambda>d nls. Inr (demo_manifest\<lparr>version := JStr ''one''\<rparr>))\<rparr>)
     None (Some ''minor'')
   = ([ReadManifest (Some ''/work'') (Some False),
       WriteManifest ''/work'' (demo_manifest\<lparr>version := JNull\<rparr>)],
      Inr ())"
  using versionBump_invalid_current_version
          [where d = "''minor''" and cwd = "''/work''" and cwd_arg = None
             and e = "demo_env\<lparr>readManifest :=
                        (\<lambda>d nls. Inr (demo_manifest\<lparr>version := JStr ''one''\<rparr>))\<rparr>"
             and m = "demo_manifest\<lparr>version := JStr ''one''\<rparr>" and s = "''one''"]
  by (simp add: demo_env_def demo_manifest_def)

section \<open>publish: manifests that enable the proposed API\<close>

text \<open>
  C5. Whichever way the manifest was resolved (read from the archive at
  \<^verbatim>\<open>options.packagePath\<close>, or returned by the packager after the bump), if its
  \<^verbatim>\<open>enableProposedApi\<close> is \<^verbatim>\<open>true\<close> then \<^verbatim>\<open>publish\<close> is rejected with the
  proposed-API error, it has issued no call beyond those that resolved the manifest, and
  none of its calls goes to the registry: no \<^verbatim>\<open>getExtension\<close>, no transfer.
\<close>

theorem publish_proposed_api_rejected:
  assumes "enableProposedApi m = Some True"
  shows "(opt_packagePath options = Some p \<and> p \<noteq> [] \<and> \<not> truthy (opt_version options)
            \<and> readManifestFromPackage e p = (t, Some (Inr m)) \<longrightarrow>
          publish e options = (t, Some (Inl proposed_api_error)) \<and> filter is_network t = [])
       \<and> (\<not> truthy (opt_packagePath options) \<and> publish_build e options = (t, Inr (m, p)) \<longrightarrow>
          publish e options = (t, Some (Inl proposed_api_error)) \<and> filter is_network t = [])"
proof -
  have A: "publish e options = (t, Some (Inl proposed_api_error)) \<and> filter is_network t = []"
    if "opt_packagePath options = Some p \<and> p \<noteq> [] \<and> \<not> truthy (opt_version options)
            \<and> readManifestFromPackage e p = (t, Some (Inr m))"
    using that assms readManifestFromPackage_calls [of e p]
    by (simp add: publish_def Let_def thenPending_def publish_resolved_def)
  have B: "publish e options = (t, Some (Inl proposed_api_error)) \<and> filter is_network t = []"
    if "\<not> truthy (opt_packagePath options) \<and> publish_build e options = (t, Inr (m, p))"
    using that assms publish_build_calls [of e options]
    by (cases "opt_packagePath options")
       (simp_all add: publish_def Let_def thenPending_def pending_def publish_resolved_def)
  from A B show ?thesis by blast
qed

text \<open>
  C5 on an archive whose \<open>extension/package.json\<close> parses to a manifest with the flag
  set, and on a packager that returns such a manifest.
\<close>

theorem publish_proposed_api_rejected_witness:
  "publish
     (demo_env\<lparr>zip_open := (\<lambda>p. Inr [EvEntry 0 ''extension/package.json'', EvEnd,
                                       EvOpenStream 0 None, EvData 0 ''{}'', EvStreamEnd 0]),
               parse_json := (\<lambda>bytes. Inr (demo_manifest\<lparr>enableProposedApi := Some True\<rparr>))\<rparr>)
     (demo_options\<lparr>opt_packagePath := Some ''a.vsix''\<rparr>)
     = ([ZipOpen ''a.vsix'', OpenReadStream 0], Some (Inl proposed_api_error))
   \<and> publish
     (demo_env\<lparr>pack := (\<lambda>po. Inr (demo_manifest\<lparr>enableProposedApi := Some True\<rparr>,
                                   pk_packagePath po))\<rparr>)
     demo_options
     = ([TmpName,
         Pack \<lparr>pk_packagePath = ''/tmp/a.vsix'', pk_cwd = None, pk_baseContentUrl = None,
               pk_baseImagesUrl = None\<rparr>],
        Some (Inl proposed_api_error))"
  using publish_proposed_api_rejected
          [where m = "demo_manifest\<lparr>enableProposedApi := Some True\<rparr>"
             and options = "demo_options\<lparr>opt_packagePath := Some ''a.vsix''\<rparr>"
             and p = "''a.vsix''"
             and e = "demo_env\<lparr>zip_open := (\<lambda>p. Inr [EvEntry 0 ''extension/package.json'', EvEnd,
                                       EvOpenStream 0 None, EvData 0 ''{}'', EvStreamEnd 0]),
               parse_json := (\<lambda>bytes. Inr (demo_manifest\<lparr>enableProposedApi := Some True\<rparr>))\<rparr>"
             and t = "[ZipOpen ''a.vsix'', OpenReadStream 0]"]
        publish_proposed_api_rejected
          [where m = "demo_manifest\<lparr>enableProposedApi := Some True\<rparr>"
             and options = demo_options and p = "''/tmp/a.vsix''"
             and e = "demo_env\<lparr>pack := (\<lambda>po. Inr (demo_manifest\<lparr>enableProposedApi := Some True\<rparr>,
                                   pk_packagePath po))\<rparr>"
             and t = "[TmpName,
                Pack \<lparr>pk_packagePath = ''/tmp/a.vsix'', pk_cwd = None, pk_baseContentUrl = None,
                      pk_baseImagesUrl = None\<rparr>]"]
  by (simp add: demo_env_def demo_options_def demo_manifest_def readManifestFromPackage_def
        rm_init_def is_manifest_entry_def matches_ci_def ascii_lower_def settle_def
        publish_build_def versionBump_def Let_def)

section \<open>unpublish: confirmation\<close>

text \<open>
  C7, as stated, fails in its second half. With the identifier \<open>acme.tool\<close>, no
  \<^verbatim>\<open>pat\<close> option, a publisher the credential store does not know and the answer
  \<open>y\<close>, \<^verbatim>\<open>unpublish\<close> issues no delete call at all: the rejected
  \<^verbatim>\<open>pat\<close> promise ends the chain before \<^verbatim>\<open>deleteExtension\<close>.
\<close>

theorem unpublish_confirmed_without_delete_counterexample:
  "read env_unknown_publisher
        (delete_question ''acme.tool'') = Inr ''y''
   \<and> matches_ci ''y'' ''y''
   \<and> unpublish env_unknown_publisher
        (demo_unpublish_options ''acme.tool'')
       = ([GetPublisher (JStr ''acme''), Prompt (delete_question ''acme.tool'')],
          Inl (RStr ''Unknown publisher''))
   \<and> filter is_delete
        (fst (unpublish env_unknown_publisher
                (demo_unpublish_options ''acme.tool''))) = []"
  by (simp add: unpublish_def unpublish_resolved_def resolve_identity_def unpublish_pat_def
        demo_unpublish_options_def demo_env_def env_answering_def env_unknown_publisher_def matches_ci_y Let_def)

text \<open>
  C7, amended. Once the identity pair is resolved and the prompt is answered: an answer
  other than \<open>y\<close> or \<open>Y\<close> rejects with \<open>Aborted\<close> and no delete call is issued; the
  answer \<open>y\<close> or \<open>Y\<close>, when the access token is available (given in the options or
  found by \<^verbatim>\<open>getPublisher\<close>), leads to exactly one delete call, for the resolved
  pair; when the token lookup fails, its failure is the outcome and no delete call is
  issued.
\<close>

theorem unpublish_confirmation:
  assumes "resolve_identity e options = (pre, Inr (p, n))"
    and "read e (delete_question (to_string p @ ''.'' @ to_string n)) = Inr answer"
  shows "(\<not> (answer = ''y'' \<or> answer = ''Y'') \<longrightarrow>
            snd (unpublish e options) = Inl (RStr ''Aborted'')
            \<and> filter is_delete (fst (unpublish e options)) = [])
       \<and> ((answer = ''y'' \<or> answer = ''Y'') \<and> snd (unpublish_pat e options p) = Inr tok \<longrightarrow>
            filter is_delete (fst (unpublish e options)) = [DeleteExtension p n])
       \<and> ((answer = ''y'' \<or> answer = ''Y'') \<and> snd (unpublish_pat e options p) = Inl err \<longrightarrow>
            snd (unpublish e options) = Inl err
            \<and> filter is_delete (fst (unpublish e options)) = [])"
  using assms resolve_identity_calls [OF assms(1)] unpublish_pat_calls [of e options p]
  by (cases "deleteExtension e tok p n")
     (simp_all add: unpublish_def unpublish_resolved_def Let_def matches_ci_y)

text \<open>
  C7, amended, for \<open>acme.tool\<close>: the answer \<open>n\<close>; the answer \<open>Y\<close> with a stored token;
  the answer \<open>y\<close> with the token given in the options.
\<close>

theorem unpublish_confirmation_witness:
  "unpublish (env_answering ''n'') (demo_unpublish_options ''acme.tool'')
     = ([GetPublisher (JStr ''acme''), Prompt (delete_question ''acme.tool'')],
        Inl (RStr ''Aborted''))
   \<and> filter is_delete
       (fst (unpublish (env_answering ''Y'') (demo_unpublish_options ''acme.tool'')))
     = [DeleteExtension (JStr ''acme'') (JStr ''tool'')]
   \<and> filter is_delete
       (fst (unpublish demo_env ((demo_unpublish_options ''acme.tool'')\<lparr>opt_pat := Some ''abc''\<rparr>)))
     = [DeleteExtension (JStr ''acme'') (JStr ''tool'')]"
  using unpublish_confirmation
          [where e = "env_answering ''n''"
             and options = "demo_unpublish_options ''acme.tool''" and pre = "[]"
             and p = "JStr ''acme''" and n = "JStr ''tool''" and answer = "''n''"]
        unpublish_confirmation
          [where e = "env_answering ''Y''"
             and options = "demo_unpublish_options ''acme.tool''" and pre = "[]"
             and p = "JStr ''acme''" and n = "JStr ''tool''" and answer = "''Y''"
             and tok = "''token''"]
        unpublish_confirmation
          [where e = demo_env
             and options = "(demo_unpublish_options ''acme.tool'')\<lparr>opt_pat := Some ''abc''\<rparr>"
             and pre = "[]"
             and p = "JStr ''acme''" and n = "JStr ''tool''" and answer = "''y''"
             and tok = "''abc''"]
  by (simp add: resolve_identity_def unpublish_pat_def demo_unpublish_options_def demo_env_def env_answering_def env_unknown_publisher_def
        unpublish_def unpublish_resolved_def Let_def matches_ci_y)

section \<open>unpublish: when the credential lookup happens\<close>

text \<open>
  C8, as stated, fails. With the identifier \<open>acme.tool\<close>, no \<^verbatim>\<open>pat\<close> option and
  the answer \<open>n\<close>, the user aborts, and yet \<^verbatim>\<open>getPublisher\<close> has been called: it is
  called before the prompt.
\<close>

theorem unpublish_lookup_on_abort_counterexample:
  "\<not> truthy (opt_pat (demo_unpublish_options ''acme.tool''))
   \<and> unpublish (env_answering ''n'') (demo_unpublish_options ''acme.tool'')
       = ([GetPublisher (JStr ''acme''), Prompt (delete_question ''acme.tool'')],
          Inl (RStr ''Aborted''))
   \<and> GetPublisher (JStr ''acme'')
       \<in> set (fst (unpublish (env_answering ''n'')
                     (demo_unpublish_options ''acme.tool'')))"
  by (simp add: unpublish_def unpublish_resolved_def resolve_identity_def unpublish_pat_def
        demo_unpublish_options_def demo_env_def env_answering_def env_unknown_publisher_def matches_ci_y Let_def)

text \<open>
  C8, amended. Without a \<^verbatim>\<open>pat\<close> option, once the identity pair is resolved the next
  two calls are always \<^verbatim>\<open>getPublisher\<close> and then the prompt, so the lookup precedes the
  confirmation and happens whether or not the user confirms. No delete call precedes the
  prompt, and when the prompt is not answered by \<open>y\<close> or \<open>Y\<close> nothing at all is
  called after it: the delete call happens only after the user has confirmed.
\<close>

theorem unpublish_lookup_precedes_prompt:
  assumes "\<not> truthy (opt_pat options)"
    and "resolve_identity e options = (pre, Inr (p, n))"
    and "q = delete_question (to_string p @ ''.'' @ to_string n)"
  shows "\<exists>rest. fst (unpublish e options) = pre @ [GetPublisher p, Prompt q] @ rest
           \<and> filter is_delete pre = []
           \<and> ((\<forall>a. read e q = Inr a \<longrightarrow> \<not> matches_ci ''y'' a) \<longrightarrow> rest = [])"
proof -
  have pat: "fst (unpublish_pat e options p) = [GetPublisher p]"
    using assms(1) by (simp add: unpublish_pat_calls)
  have nodel: "filter is_delete pre = []"
    using resolve_identity_calls [OF assms(2)] by simp
  show ?thesis
  proof (cases "read e q")
    case (Inl err)
    then have "fst (unpublish e options) = pre @ [GetPublisher p, Prompt q] @ []"
      using assms(2,3) pat by (simp add: unpublish_def unpublish_resolved_def Let_def)
    with nodel show ?thesis by blast
  next
    case (Inr a)
    show ?thesis
    proof (cases "matches_ci ''y'' a")
      case False
      then have "fst (unpublish e options) = pre @ [GetPublisher p, Prompt q] @ []"
        using Inr assms(2,3) pat by (simp add: unpublish_def unpublish_resolved_def Let_def)
      with nodel show ?thesis by blast
    next
      case True
      have "\<exists>rest. fst (unpublish_resolved e options (p, n)) = [GetPublisher p, Prompt q] @ rest"
        using pat assms(3) by (simp add: unpublish_resolved_def Let_def fst_andThen)
      then have "\<exists>rest. fst (unpublish e options) = pre @ [GetPublisher p, Prompt q] @ rest"
        using assms(2) by (auto simp: unpublish_def)
      with nodel True Inr show ?thesis by auto
    qed
  qed
qed

text \<open>C8, amended, for \<open>acme.tool\<close> and the answer \<open>n\<close>.\<close>

theorem unpublish_lookup_precedes_prompt_witness:
  "fst (unpublish (env_answering ''n'') (demo_unpublish_options ''acme.tool''))
     = [GetPublisher (JStr ''acme''), Prompt (delete_question ''acme.tool'')]"
  using unpublish_lookup_precedes_prompt
          [where e = "env_answering ''n''"
             and options = "demo_unpublish_options ''acme.tool''" and pre = "[]"
             and p = "JStr ''acme''" and n = "JStr ''tool''"
             and q = "delete_question ''acme.tool''"]
  by (auto simp: resolve_identity_def demo_unpublish_options_def env_answering_def demo_env_def
        matches_ci_y)

section \<open>readManifestFromPackage: no manifest entry\<close>

text \<open>
  C3. Let the archive open and deliver its entries, none of which is named
  \<open>extension/package.json\<close> in any letter case, and then its end. Then
  \<^verbatim>\<open>readManifestFromPackage\<close> is rejected with the error \<open>Manifest not found\<close>, without
  having opened any stream. After any number of the entries, and before the end event,
  the promise is still pending, so the rejection comes with the end event and not
  earlier. And in any sequence of events, from the arrival of an entry that does match
  on, the end event changes nothing: the fallback is cancelled.
\<close>

theorem manifest_not_found_at_end:
  assumes "\<forall>x\<in>set entries. \<not> is_manifest_entry (snd x)"
    and "zip_open e packagePath = Inr (entry_events entries @ [EvEnd])"
  shows "readManifestFromPackage e packagePath
           = ([ZipOpen packagePath], Some (Inl (new_Error ''Manifest not found'')))
       \<and> (\<forall>k\<le>length entries.
             settled (zip_run (parse_json e) rm_init (take k (entry_events entries))) = None)
       \<and> (is_manifest_entry fileName \<longrightarrow>
             zip_run (parse_json e) rm_init (evs1 @ EvEntry i fileName # evs2 @ [EvEnd])
               = zip_run (parse_json e) rm_init (evs1 @ EvEntry i fileName # evs2))"
proof -
  let ?parse = "parse_json e"
  have "zip_run ?parse rm_init (entry_events entries @ [EvEnd])
          = zip_step ?parse rm_init EvEnd"
    using assms(1) by (simp add: zip_run_append skipped_entries_run)
  then have first: "readManifestFromPackage e packagePath
           = ([ZipOpen packagePath], Some (Inl (new_Error ''Manifest not found'')))"
    using assms(2) by (simp add: readManifestFromPackage_def rm_init_def settle_def)
  have second: "settled (zip_run ?parse rm_init (take k (entry_events entries))) = None" for k
  proof -
    have "take k (entry_events entries) = entry_events (take k entries)"
      by (simp add: entry_events_def take_map)
    moreover have "\<forall>x\<in>set (take k entries). \<not> is_manifest_entry (snd x)"
      using assms(1) by (auto dest: in_set_takeD)
    ultimately show ?thesis
      by (simp add: skipped_entries_run rm_init_def)
  qed
  have third: "zip_run ?parse rm_init (evs1 @ EvEntry i fileName # evs2 @ [EvEnd])
               = zip_run ?parse rm_init (evs1 @ EvEntry i fileName # evs2)"
    if "is_manifest_entry fileName"
  proof -
    let ?s = "zip_step ?parse (zip_run ?parse rm_init evs1) (EvEntry i fileName)"
    have "\<not> onEnd ?s" using that by simp
    then have "\<not> onEnd (zip_run ?parse ?s evs2)" by (rule onEnd_run)
    then have "zip_step ?parse (zip_run ?parse ?s evs2) EvEnd = zip_run ?parse ?s evs2"
      by simp
    then show ?thesis
      by (simp add: zip_run_append)
  qed
  from first second third show ?thesis by blast
qed

text \<open>
  C3 on an archive with the entries \<open>[Content_Types].xml\<close> and \<open>extension/readme.md\<close>;
  and the end event after \<open>extension/package.json\<close> has arrived.
\<close>

theorem manifest_not_found_at_end_witness:
  "readManifestFromPackage
     (env_archive [EvEntry 0 ''[Content_Types].xml'', EvEntry 1 ''extension/readme.md'', EvEnd])
     ''a.vsix''
     = ([ZipOpen ''a.vsix''], Some (Inl (new_Error ''Manifest not found'')))
   \<and> settled (zip_run (parse_json demo_env) rm_init
        [EvEntry 0 ''[Content_Types].xml'', EvEntry 1 ''extension/readme.md'']) = None
   \<and> zip_run (parse_json demo_env) rm_init ([] @ EvEntry 2 ''extension/package.json'' # [] @ [EvEnd])
       = zip_run (parse_json demo_env) rm_init ([] @ EvEntry 2 ''extension/package.json'' # [])"
proof -
  have ne: "\<forall>x\<in>set [(0::nat, ''[Content_Types].xml''), (1, ''extension/readme.md'')].
             \<not> is_manifest_entry (snd x)"
    by (simp add: is_manifest_entry_def matches_ci_def)
  have op: "zip_open
      (env_archive [EvEntry 0 ''[Content_Types].xml'', EvEntry 1 ''extension/readme.md'', EvEnd])
      ''a.vsix''
      = Inr (entry_events [(0, ''[Content_Types].xml''), (1, ''extension/readme.md'')] @ [EvEnd])"
    by (simp add: env_archive_def demo_env_def entry_events_def)
  have m: "is_manifest_entry ''extension/package.json''"
    by (simp add: is_manifest_entry_def matches_ci_def ascii_lower_def)
  have pj: "parse_json
      (env_archive [EvEntry 0 ''[Content_Types].xml'', EvEntry 1 ''extension/readme.md'', EvEnd])
      = parse_json demo_env"
    by (simp add: env_archive_def)
  from manifest_not_found_at_end [OF ne op, of "''extension/package.json''" "[]" 2 "[]"] m pj
  have "readManifestFromPackage
     (env_archive [EvEntry 0 ''[Content_Types].xml'', EvEntry 1 ''extension/readme.md'', EvEnd])
     ''a.vsix''
     = ([ZipOpen ''a.vsix''], Some (Inl (new_Error ''Manifest not found'')))
   \<and> (\<forall>k\<le>2. settled (zip_run (parse_json demo_env) rm_init
        (take k (entry_events [(0, ''[Content_Types].xml''), (1, ''extension/readme.md'')]))) = None)
   \<and> zip_run (parse_json demo_env) rm_init ([] @ EvEntry 2 ''extension/package.json'' # [] @ [EvEnd])
       = zip_run (parse_json demo_env) rm_init ([] @ EvEntry 2 ''extension/package.json'' # [])"
    by simp
  then show ?thesis
    by (auto simp: entry_events_def dest: spec [of _ 2])
qed

section \<open>readManifestFromPackage: the manifest entry\<close>

text \<open>
  C4, as stated, fails on an archive with two entries whose names both match
  \<open>extension/package.json\<close> case-insensitively, with the contents \<open>first\<close> and
  \<open>second\<close>. The scan does not stop at the first match: both streams are opened and the
  one that ends first settles the promise. When the events of the first entry's stream
  arrive first, the result is the first entry's manifest and not the second's; when the
  second entry's stream ends first, the result is the second entry's manifest and not the
  first's. In neither case is the result the content of every entry that matches.
\<close>

theorem manifest_of_two_matching_entries_counterexample:
  "is_manifest_entry ''extension/package.json'' \<and> is_manifest_entry ''Extension/Package.json''
   \<and> readManifestFromPackage (env_two_manifest_entries two_entries_in_order) ''a.vsix''
       = ([ZipOpen ''a.vsix'', OpenReadStream 0, OpenReadStream 1], Some (Inr demo_manifest))
   \<and> parse_json (env_two_manifest_entries two_entries_in_order) (concat [''second''])
       = Inr second_manifest
   \<and> readManifestFromPackage (env_two_manifest_entries two_entries_second_first) ''a.vsix''
       = ([ZipOpen ''a.vsix'', OpenReadStream 0, OpenReadStream 1], Some (Inr second_manifest))
   \<and> parse_json (env_two_manifest_entries two_entries_second_first) (concat [''fir'', ''st''])
       = Inr demo_manifest
   \<and> demo_manifest \<noteq> second_manifest"
  by (simp add: readManifestFromPackage_def env_two_manifest_entries_def two_entries_in_order_def
        two_entries_second_first_def demo_env_def rm_init_def settle_def is_manifest_entry_def
        matches_ci_def ascii_lower_def second_manifest_def demo_manifest_def Let_def)

text \<open>
  C4, amended. Let the archive hold exactly one entry whose name matches
  \<open>extension/package.json\<close> case-insensitively, anywhere among its other entries, and let
  that entry's read stream open, deliver its chunks and end; its events may arrive
  interleaved in any way with the rest of the enumeration and the end of the archive.
  Then \<^verbatim>\<open>readManifestFromPackage\<close> opens that one stream and settles with the result of
  parsing the chunks, concatenated in order, as UTF-8 JSON: the parsed manifest, or the
  parser's error when they are not valid JSON.
\<close>

theorem manifest_of_single_matching_entry:
  assumes "\<forall>x\<in>set before. \<not> is_manifest_entry (snd x)"
    and "\<forall>x\<in>set after. \<not> is_manifest_entry (snd x)"
    and "is_manifest_entry fileName"
    and "sched \<in> shuffles (entry_events after @ [EvEnd]) (stream_events i chunks)"
    and "zip_open e packagePath = Inr (entry_events before @ EvEntry i fileName # sched)"
  shows "readManifestFromPackage e packagePath
           = ([ZipOpen packagePath, OpenReadStream i], Some (parse_json e (concat chunks)))"
proof -
  let ?parse = "parse_json e"
  let ?s = "rm_init\<lparr>onEnd := False, opened := [i]\<rparr>"
  have "zip_run ?parse rm_init (entry_events before @ EvEntry i fileName # sched)
          = zip_run ?parse (zip_step ?parse rm_init (EvEntry i fileName)) sched"
    using assms(1) by (simp add: zip_run_append skipped_entries_run)
  also have "zip_step ?parse rm_init (EvEntry i fileName) = ?s"
    using assms(3) by (simp add: rm_init_def)
  also have "zip_run ?parse ?s sched = zip_run ?parse ?s (stream_events i chunks)"
  proof (rule shuffled_enumeration_skipped [OF assms(4)])
    show "\<forall>x\<in>set (entry_events after @ [EvEnd]). is_skipped x"
      using assms(2) by (auto simp: entry_events_def)
    show "\<not> onEnd ?s" by simp
  qed
  finally have run: "zip_run ?parse rm_init (entry_events before @ EvEntry i fileName # sched)
      = zip_run ?parse ?s (stream_events i chunks)" .
  have "settled ?s = None" and "i \<in> set (opened ?s)"
    by (simp_all add: rm_init_def)
  then have "settled (zip_run ?parse ?s (stream_events i chunks)) = Some (?parse (concat chunks))"
    and "opened (zip_run ?parse ?s (stream_events i chunks)) = [i]"
    by (simp_all add: single_stream_run)
  with run assms(5) show ?thesis
    by (simp add: readManifestFromPackage_def Let_def)
qed

text \<open>
  C4, amended, on the archive \<open>[Content_Types].xml\<close>, \<open>Extension/Package.JSON\<close>,
  \<open>extension/readme.md\<close>, whose manifest stream delivers \<open>{\<close> and \<open>}\<close> while the
  enumeration goes on; and on the same archive with a manifest stream that delivers only
  \<open>{\<close>.
\<close>

theorem manifest_of_single_matching_entry_witness:
  "readManifestFromPackage
     (env_archive [EvEntry 0 ''[Content_Types].xml'', EvEntry 1 ''Extension/Package.JSON'',
                   EvOpenStream 1 None, EvEntry 2 ''extension/readme.md'', EvData 1 ''{'',
                   EvEnd, EvData 1 ''}'', EvStreamEnd 1])
     ''a.vsix''
     = ([ZipOpen ''a.vsix'', OpenReadStream 1], Some (Inr demo_manifest))
   \<and> readManifestFromPackage
     (env_archive [EvEntry 0 ''[Content_Types].xml'', EvEntry 1 ''Extension/Package.JSON'',
                   EvEntry 2 ''extension/readme.md'', EvEnd,
                   EvOpenStream 1 None, EvData 1 ''{'', EvStreamEnd 1])
     ''a.vsix''
     = ([ZipOpen ''a.vsix'', OpenReadStream 1], Some (Inl (new_Error ''Unexpected token'')))"
proof -
  have b: "\<forall>x\<in>set [(0::nat, ''[Content_Types].xml'')]. \<not> is_manifest_entry (snd x)"
    by (simp add: is_manifest_entry_def matches_ci_def)
  have a: "\<forall>x\<in>set [(2::nat, ''extension/readme.md'')]. \<not> is_manifest_entry (snd x)"
    by (simp add: is_manifest_entry_def matches_ci_def ascii_lower_def)
  have m: "is_manifest_entry ''Extension/Package.JSON''"
    by (simp add: is_manifest_entry_def matches_ci_def ascii_lower_def)
  have s1: "[EvOpenStream 1 None, EvEntry 2 ''extension/readme.md'', EvData 1 ''{'',
             EvEnd, EvData 1 ''}'', EvStreamEnd 1]
            \<in> shuffles (entry_events [(2, ''extension/readme.md'')] @ [EvEnd])
                 (stream_events 1 [''{'', ''}''])"
    by (simp add: entry_events_def stream_events_def Cons_in_shuffles_iff)
  have s2: "[EvEntry 2 ''extension/readme.md'', EvEnd,
             EvOpenStream 1 None, EvData 1 ''{'', EvStreamEnd 1]
            \<in> shuffles (entry_events [(2, ''extension/readme.md'')] @ [EvEnd])
                 (stream_events 1 [''{''])"
    by (simp add: entry_events_def stream_events_def Cons_in_shuffles_iff)
  have o1: "zip_open
     (env_archive [EvEntry 0 ''[Content_Types].xml'', EvEntry 1 ''Extension/Package.JSON'',
                   EvOpenStream 1 None, EvEntry 2 ''extension/readme.md'', EvData 1 ''{'',
                   EvEnd, EvData 1 ''}'', EvStreamEnd 1]) ''a.vsix''
     = Inr (entry_events [(0, ''[Content_Types].xml'')] @ EvEntry 1 ''Extension/Package.JSON'' #
            [EvOpenStream 1 None, EvEntry 2 ''extension/readme.md'', EvData 1 ''{'',
             EvEnd, EvData 1 ''}'', EvStreamEnd 1])"
    by (simp add: env_archive_def entry_events_def)
  have o2: "zip_open
     (env_archive [EvEntry 0 ''[Content_Types].xml'', EvEntry 1 ''Extension/Package.JSON'',
                   EvEntry 2 ''extension/readme.md'', EvEnd,
                   EvOpenStream 1 None, EvData 1 ''{'', EvStreamEnd 1]) ''a.vsix''
     = Inr (entry_events [(0, ''[Content_Types].xml'')] @ EvEntry 1 ''Extension/Package.JSON'' #
            [EvEntry 2 ''extension/readme.md'', EvEnd,
             EvOpenStream 1 None, EvData 1 ''{'', EvStreamEnd 1])"
    by (simp add: env_archive_def entry_events_def)
  show ?thesis
    using manifest_of_single_matching_entry [OF b a m s1 o1]
          manifest_of_single_matching_entry [OF b a m s2 o2]
    by (simp add: env_archive_def demo_env_def)
qed

end
